theory Spec2Isabelle
  imports Complex_Main "HOL-Library.Word" "HOL-Library.Log_Nat"
begin

section \<open>Shared string helpers\<close>

text \<open>
  JavaScript strings are modelled as \<^typ>\<open>string\<close>, one \<^typ>\<open>char\<close> for each code unit;
  the model covers the code units below 256 (Latin-1). \<open>String.prototype.trim\<close> removes
  leading and trailing white space and line terminators: below 256 these are tab, line
  feed, vertical tab, form feed, carriage return, space and no-break space.
\<close>

definition isSpace :: "char \<Rightarrow> bool" where
  "isSpace c = (c = CHR 0x09 \<or> c = CHR 0x0A \<or> c = CHR 0x0B \<or> c = CHR 0x0C
                \<or> c = CHR 0x0D \<or> c = CHR '' '' \<or> c = CHR 0xA0)"

definition trim :: "string \<Rightarrow> string" where
  "trim s = rev (dropWhile isSpace (rev (dropWhile isSpace s)))"

section \<open>Quota consumption engine\<close>

text \<open>
  The repository holds two files exporting \<open>assertAndConsumePrintQuota\<close>. The first
  (\<open>src/unnamed/part_002\<close>, with \<open>loadAndComputeRemainingFromDb\<close>, \<open>writeBehindDbConsume\<close>
  and \<open>dbFallbackOptimisticConsume\<close>) is the engine the specification describes and, by
  its imports, the \<open>printQuotaService.js\<close> the routes import. The second is
  \<open>printQuotaServiceV2.js\<close> (with \<open>ensureDbQuotaInitialized\<close> and \<open>dbOptimisticConsume\<close>).
  Both are embedded; the second one's entry point carries the suffix \<open>V2\<close>.
\<close>

subsection \<open>Durable store: the access grants\<close>

text \<open>
  A \<open>VectorDocumentAccess\<close> document as it is stored. Numbers are integers. \<open>None\<close> stands
  for a field that is absent from the stored document (for \<open>printQuota\<close>, \<open>assignedQuota\<close>
  and \<open>lastPrintAt\<close>: absent or \<open>null\<close>). \<open>lastPrintAt\<close> is a time in seconds.

  The engine reads a document through its schema, which supplies the defaults
  \<open>printsUsed: 0\<close>, \<open>usedPrints: 0\<close> and \<open>printQuota: null\<close> for absent fields: an absent
  counter is read as 0 and an absent \<open>printQuota\<close> as \<open>null\<close>. The filter of an update
  (\<open>printsUsed: { $lt: printQuota }\<close>) is matched against the stored document, where an
  absent field matches no comparison.
\<close>

record access =
  revoked :: bool
  printQuota :: "int option"
  assignedQuota :: "int option"
  printsUsed :: "int option"
  usedPrints :: "int option"
  lastPrintAt :: "nat option"

text \<open>The collection, with its unique index on (documentId, userId).\<close>

type_synonym access_db = "string \<times> string \<Rightarrow> access option"

datatype quota_error = BAD_REQUEST | NO_ACCESS | REVOKED | LIMIT

text \<open>
  \<open>Number.isFinite(access.printQuota) && access.printQuota !== null
     ? Number(access.printQuota) : Number(access.assignedQuota || 0)\<close>
\<close>

definition effectiveQuota :: "access \<Rightarrow> int" where
  "effectiveQuota a =
     (case printQuota a of
        Some q \<Rightarrow> q
      | None \<Rightarrow> (case assignedQuota a of Some q \<Rightarrow> q | None \<Rightarrow> 0))"

text \<open>\<open>Number.isFinite(x) ? Number(x) : 0\<close>\<close>

definition finiteOrZero :: "int option \<Rightarrow> int" where
  "finiteOrZero x = (case x of Some n \<Rightarrow> n | None \<Rightarrow> 0)"

text \<open>\<open>$inc: { f: 1 }\<close>: an absent field is created with the increment as its value.\<close>

definition inc1 :: "int option \<Rightarrow> int option" where
  "inc1 x = Some (finiteOrZero x + 1)"

subsection \<open>KV cache\<close>

text \<open>
  The two key families of the engine. \<open>strs\<close> maps a string key to the time (in seconds)
  at which it expires: the only string value the engine writes is \<open>"1"\<close>. \<open>hashes\<close> maps
  a hash key to the number stored in its field \<open>remaining\<close>.
\<close>

record kv_cache =
  strs :: "string \<Rightarrow> nat option"
  hashes :: "string \<Rightarrow> int option"

definition quotaKey :: "string \<Rightarrow> string \<Rightarrow> string" where
  "quotaKey documentId userId = ''print_quota:'' @ documentId @ '':'' @ userId"

definition reqKey :: "string \<Rightarrow> string \<Rightarrow> string \<Rightarrow> string" where
  "reqKey documentId userId requestId =
     ''print_req:'' @ documentId @ '':'' @ userId @ '':'' @ requestId"

definition IDEMPOTENCY_TTL_SECONDS :: nat where
  "IDEMPOTENCY_TTL_SECONDS = 300"

text \<open>A string key is held at time \<open>now\<close> when it is present and has not expired.\<close>

definition held :: "nat \<Rightarrow> kv_cache \<Rightarrow> string \<Rightarrow> bool" where
  "held now c k = (case strs c k of None \<Rightarrow> False | Some e \<Rightarrow> now < e)"

text \<open>
  \<open>SET key "1" NX EX ttl\<close> as the ioredis client of \<open>redisClient.js\<close> resolves it: the
  string \<open>OK\<close> when the key was set, and \<open>null\<close> (here \<open>None\<close>) when the key is held,
  for which Redis replies nil.
\<close>

definition setNxEx :: "nat \<Rightarrow> kv_cache \<Rightarrow> string \<Rightarrow> nat \<Rightarrow> string option \<times> kv_cache" where
  "setNxEx now c k ttl =
     (if held now c k then (None, c)
      else (Some ''OK'', c\<lparr>strs := (strs c)(k \<mapsto> now + ttl)\<rparr>))"

text \<open>JavaScript's \<open>!x\<close> for a reply \<open>x\<close> that is a string or \<open>null\<close>.\<close>

definition falsy :: "string option \<Rightarrow> bool" where
  "falsy x = (case x of None \<Rightarrow> True | Some s \<Rightarrow> s = [])"

definition del :: "kv_cache \<Rightarrow> string \<Rightarrow> kv_cache" where
  "del c k = c\<lparr>strs := (strs c)(k := None)\<rparr>"

text \<open>The Lua script \<open>ATOMIC_PRINT_DECREMENT\<close>.\<close>

definition ATOMIC_PRINT_DECREMENT :: "kv_cache \<Rightarrow> string \<Rightarrow> int \<times> kv_cache" where
  "ATOMIC_PRINT_DECREMENT c k =
     (case hashes c k of
        None \<Rightarrow> (- 2, c)
      | Some remaining \<Rightarrow>
          if remaining \<le> 0 then (- 1, c)
          else (remaining - 1, c\<lparr>hashes := (hashes c)(k \<mapsto> remaining - 1)\<rparr>))"

definition seedRedisRemaining :: "kv_cache \<Rightarrow> string \<Rightarrow> string \<Rightarrow> int \<Rightarrow> kv_cache" where
  "seedRedisRemaining c documentId userId remaining =
     c\<lparr>hashes := (hashes c)(quotaKey documentId userId \<mapsto> max 0 remaining)\<rparr>"

text \<open>
  What the cache does during one call: whether \<open>getRedisClient()\<close> returns a client, and
  which of the commands of the call fail with a transport error (a failed command has no
  effect). The metadata store is taken to answer every command.
\<close>

record redis_env =
  client :: bool
  set_fails :: bool
  eval_fails :: bool
  hset_fails :: bool
  eval2_fails :: bool
  del_fails :: bool

definition redis_ok :: "redis_env \<Rightarrow> bool" where
  "redis_ok env = (client env \<and> \<not> set_fails env \<and> \<not> eval_fails env \<and> \<not> hset_fails env
                   \<and> \<not> eval2_fails env \<and> \<not> del_fails env)"

record qstate =
  cache :: kv_cache
  db :: access_db

subsection \<open>The engine the routes import\<close>

text \<open>
  \<open>loadAndComputeRemainingFromDb\<close> writes \<open>printQuota\<close> and \<open>printsUsed\<close> back when
  \<open>access.printQuota\<close> is \<open>null\<close> or \<open>access.printsUsed !== used\<close>, on the document as
  read: an absent \<open>printsUsed\<close> is compared as 0.
\<close>

definition loadAndComputeRemainingFromDb ::
  "access_db \<Rightarrow> string \<Rightarrow> string \<Rightarrow> quota_error + (int \<times> access_db)" where
  "loadAndComputeRemainingFromDb d documentId userId =
     (case d (documentId, userId) of
        None \<Rightarrow> Inl NO_ACCESS
      | Some a \<Rightarrow>
          if revoked a then Inl REVOKED
          else
            (let pq = effectiveQuota a;
                 used = max (finiteOrZero (printsUsed a)) (finiteOrZero (usedPrints a));
                 d' = (if printQuota a = None \<or> finiteOrZero (printsUsed a) \<noteq> used
                       then d((documentId, userId) \<mapsto> a\<lparr>printQuota := Some pq, printsUsed := Some used\<rparr>)
                       else d)
             in Inr (max 0 (pq - used), d')))"

definition writeBehindDbConsume :: "nat \<Rightarrow> access_db \<Rightarrow> string \<Rightarrow> string \<Rightarrow> access_db" where
  "writeBehindDbConsume now d documentId userId =
     (case d (documentId, userId) of
        None \<Rightarrow> d
      | Some a \<Rightarrow>
          if revoked a then d
          else d((documentId, userId) \<mapsto> a\<lparr>printsUsed := inc1 (printsUsed a), lastPrintAt := Some now\<rparr>))"

definition dbFallbackOptimisticConsume ::
  "nat \<Rightarrow> access_db \<Rightarrow> string \<Rightarrow> string \<Rightarrow> (quota_error + unit) \<times> access_db" where
  "dbFallbackOptimisticConsume now d documentId userId =
     (case d (documentId, userId) of
        None \<Rightarrow> (Inl NO_ACCESS, d)
      | Some a \<Rightarrow>
          if revoked a then (Inl REVOKED, d)
          else
            (let pq = effectiveQuota a;
                 a1 = (if printQuota a = None then a\<lparr>printQuota := Some pq\<rparr> else a);
                 d1 = (if printQuota a = None then d((documentId, userId) \<mapsto> a1) else d)
             in case printsUsed a1 of
                  None \<Rightarrow> (Inl LIMIT, d1)
                | Some p \<Rightarrow>
                    if p < pq
                    then (Inr (), d1((documentId, userId) \<mapsto> a1\<lparr>printsUsed := Some (p + 1), lastPrintAt := Some now\<rparr>))
                    else (Inl LIMIT, d1)))"

text \<open>The durable fallback as a step of the whole state.\<close>

definition fallback ::
  "nat \<Rightarrow> qstate \<Rightarrow> string \<Rightarrow> string \<Rightarrow> (quota_error + unit) \<times> qstate" where
  "fallback now s documentId userId =
     (case dbFallbackOptimisticConsume now (db s) documentId userId of
        (r, d') \<Rightarrow> (r, s\<lparr>db := d'\<rparr>))"

text \<open>
  The end of the cache path, from \<open>if (Number(result) === -1)\<close> on: on \<open>-1\<close> the request
  key is deleted (a failing \<open>DEL\<close> is ignored) and \<open>LIMIT\<close> is thrown; otherwise the
  write-behind update runs.
\<close>

definition afterDecrement ::
  "redis_env \<Rightarrow> nat \<Rightarrow> qstate \<Rightarrow> string \<Rightarrow> string \<Rightarrow> string \<Rightarrow> int
     \<Rightarrow> (quota_error + unit) \<times> qstate" where
  "afterDecrement env now s documentId userId idempotencyKey result =
     (if result = - 1
      then (Inl LIMIT, if del_fails env then s else s\<lparr>cache := del (cache s) idempotencyKey\<rparr>)
      else (Inr (), s\<lparr>db := writeBehindDbConsume now (db s) documentId userId\<rparr>))"

text \<open>Step 3 of the cache path, entered when the first decrement returned \<open>-2\<close>.\<close>

definition cacheMissRecovery ::
  "redis_env \<Rightarrow> nat \<Rightarrow> qstate \<Rightarrow> string \<Rightarrow> string \<Rightarrow> string
     \<Rightarrow> (quota_error + unit) \<times> qstate" where
  "cacheMissRecovery env now s documentId userId idempotencyKey =
     (case loadAndComputeRemainingFromDb (db s) documentId userId of
        Inl e \<Rightarrow> (Inl e, s)
      | Inr (remaining, d') \<Rightarrow>
          (let s1 = s\<lparr>db := d'\<rparr> in
           if hset_fails env then fallback now s1 documentId userId
           else
             (let s2 = s1\<lparr>cache := seedRedisRemaining (cache s1) documentId userId remaining\<rparr> in
              if eval2_fails env then fallback now s2 documentId userId
              else
                (case ATOMIC_PRINT_DECREMENT (cache s2) (quotaKey documentId userId) of
                   (result, c') \<Rightarrow>
                     afterDecrement env now (s2\<lparr>cache := c'\<rparr>) documentId userId idempotencyKey result))))"

text \<open>
  Step 1 sets \<open>idempotencyOk\<close> to the reply of \<open>SET\<close>, or to \<open>null\<close> when the command
  throws; \<open>idempotencyOk === null\<close> then leads to the durable fallback, and
  \<open>!idempotencyOk\<close> to the return of a replay.
\<close>

definition assertAndConsumePrintQuota ::
  "redis_env \<Rightarrow> nat \<Rightarrow> qstate \<Rightarrow> string \<Rightarrow> string \<Rightarrow> string
     \<Rightarrow> (quota_error + unit) \<times> qstate" where
  "assertAndConsumePrintQuota env now s documentId userId requestId =
     (let rid = trim requestId in
      if rid = [] then (Inl BAD_REQUEST, s)
      else if client env then
        (let idempotencyKey = reqKey documentId userId rid in
         case (if set_fails env then (None, cache s)
               else setNxEx now (cache s) idempotencyKey IDEMPOTENCY_TTL_SECONDS) of
           (idempotencyOk, c1) \<Rightarrow>
             (let s1 = s\<lparr>cache := c1\<rparr> in
              if idempotencyOk = None then fallback now s1 documentId userId
              else if falsy idempotencyOk then (Inr (), s1)
              else if eval_fails env then fallback now s1 documentId userId
              else
                (case ATOMIC_PRINT_DECREMENT c1 (quotaKey documentId userId) of
                   (result, c2) \<Rightarrow>
                     if result = - 2
                     then cacheMissRecovery env now (s1\<lparr>cache := c2\<rparr>) documentId userId idempotencyKey
                     else afterDecrement env now (s1\<lparr>cache := c2\<rparr>) documentId userId
                            idempotencyKey result)))
      else fallback now s documentId userId)"

subsection \<open>The second engine file\<close>

definition ensureDbQuotaInitialized ::
  "access_db \<Rightarrow> string \<Rightarrow> string \<Rightarrow> quota_error + ((int \<times> int) \<times> access_db)" where
  "ensureDbQuotaInitialized d documentId userId =
     (case d (documentId, userId) of
        None \<Rightarrow> Inl NO_ACCESS
      | Some a \<Rightarrow>
          if revoked a then Inl REVOKED
          else
            (let pq = effectiveQuota a;
                 d' = (if printQuota a = None then d((documentId, userId) \<mapsto> a\<lparr>printQuota := Some pq\<rparr>)
                       else d);
                 used = max (finiteOrZero (printsUsed a)) (finiteOrZero (usedPrints a))
             in Inr ((pq, used), d')))"

definition dbOptimisticConsume ::
  "nat \<Rightarrow> access_db \<Rightarrow> string \<Rightarrow> string \<Rightarrow> (quota_error + unit) \<times> access_db" where
  "dbOptimisticConsume now d documentId userId =
     (case d (documentId, userId) of
        None \<Rightarrow> (Inl NO_ACCESS, d)
      | Some a \<Rightarrow>
          (let pq = effectiveQuota a;
               a1 = (if printQuota a = None then a\<lparr>printQuota := Some pq\<rparr> else a);
               d1 = (if printQuota a = None then d((documentId, userId) \<mapsto> a1) else d)
           in case printsUsed a1 of
                None \<Rightarrow> (Inl LIMIT, d1)
              | Some p \<Rightarrow>
                  if \<not> revoked a1 \<and> p < pq
                  then (Inr (), d1((documentId, userId) \<mapsto>
                          a1\<lparr>printsUsed := Some (p + 1), usedPrints := inc1 (usedPrints a1),
                             lastPrintAt := Some now\<rparr>))
                  else (Inl LIMIT, d1)))"

definition fallbackV2 ::
  "nat \<Rightarrow> qstate \<Rightarrow> string \<Rightarrow> string \<Rightarrow> (quota_error + unit) \<times> qstate" where
  "fallbackV2 now s documentId userId =
     (case dbOptimisticConsume now (db s) documentId userId of
        (r, d') \<Rightarrow> (r, s\<lparr>db := d'\<rparr>))"

text \<open>
  Step 4 of the second file: \<open>findOne\<close>, the back-fill of \<open>printQuota\<close>, and the
  unconditional increment of both counters on a grant that is not revoked.
\<close>

definition writeBehindV2 :: "nat \<Rightarrow> access_db \<Rightarrow> string \<Rightarrow> string \<Rightarrow> access_db" where
  "writeBehindV2 now d documentId userId =
     (case d (documentId, userId) of
        None \<Rightarrow> d
      | Some a \<Rightarrow>
          (let a1 = (if printQuota a = None then a\<lparr>printQuota := Some (effectiveQuota a)\<rparr> else a);
               d1 = (if printQuota a = None then d((documentId, userId) \<mapsto> a1) else d)
           in if revoked a1 then d1
              else d1((documentId, userId) \<mapsto>
                     a1\<lparr>printsUsed := inc1 (printsUsed a1), usedPrints := inc1 (usedPrints a1),
                        lastPrintAt := Some now\<rparr>)))"

text \<open>
  The body of the \<open>try\<close> block after a successful \<open>SET NX\<close>. Every exception thrown in
  it, the \<open>LIMIT\<close> error of the block itself included, reaches the \<open>catch\<close> of the
  block, which falls through to the durable fallback: \<open>Inl\<close> here means "caught", with
  the state reached.
\<close>

definition tryBodyV2 ::
  "redis_env \<Rightarrow> nat \<Rightarrow> qstate \<Rightarrow> string \<Rightarrow> string \<Rightarrow> qstate + qstate" where
  "tryBodyV2 env now s1 documentId userId =
     (if eval_fails env then Inl s1
      else
        (case ATOMIC_PRINT_DECREMENT (cache s1) (quotaKey documentId userId) of
           (dec, c2) \<Rightarrow>
             (let s2 = s1\<lparr>cache := c2\<rparr> in
              if dec = - 2 then
                (case ensureDbQuotaInitialized (db s2) documentId userId of
                   Inl e \<Rightarrow> Inl s2
                 | Inr ((pq, used), d') \<Rightarrow>
                     (let s3 = s2\<lparr>db := d'\<rparr> in
                      if hset_fails env then Inl s3
                      else
                        (let s4 = s3\<lparr>cache := seedRedisRemaining (cache s3) documentId userId (pq - used)\<rparr> in
                         if eval2_fails env then Inl s4
                         else
                           (case ATOMIC_PRINT_DECREMENT (cache s4) (quotaKey documentId userId) of
                              (dec2, c5) \<Rightarrow>
                                (let s5 = s4\<lparr>cache := c5\<rparr> in
                                 if dec2 = - 1 then Inl s5
                                 else Inr (s5\<lparr>db := writeBehindV2 now (db s5) documentId userId\<rparr>))))))
              else if dec = - 1 then Inl s2
              else Inr (s2\<lparr>db := writeBehindV2 now (db s2) documentId userId\<rparr>))))"

definition assertAndConsumePrintQuotaV2 ::
  "redis_env \<Rightarrow> nat \<Rightarrow> qstate \<Rightarrow> string \<Rightarrow> string \<Rightarrow> string
     \<Rightarrow> (quota_error + unit) \<times> qstate" where
  "assertAndConsumePrintQuotaV2 env now s documentId userId requestId =
     (let rid = trim requestId in
      if rid = [] then (Inl BAD_REQUEST, s)
      else if client env then
        (if set_fails env then fallbackV2 now s documentId userId
         else
           (case setNxEx now (cache s) (reqKey documentId userId rid) IDEMPOTENCY_TTL_SECONDS of
              (ok, c1) \<Rightarrow>
                if falsy ok then (Inr (), s\<lparr>cache := c1\<rparr>)
                else
                  (case tryBodyV2 env now (s\<lparr>cache := c1\<rparr>) documentId userId of
                     Inr s' \<Rightarrow> (Inr (), s')
                   | Inl s' \<Rightarrow> fallbackV2 now s' documentId userId)))
      else fallbackV2 now s documentId userId)"

subsection \<open>Sample states of the quota engine\<close>

text \<open>
  A cache that answers every command, and one that cannot be reached: its client is there
  and the \<open>SET\<close> command fails.
\<close>

definition envOk :: redis_env where
  "envOk = \<lparr>client = True, set_fails = False, eval_fails = False, hset_fails = False,
             eval2_fails = False, del_fails = False\<rparr>"

definition envDown :: redis_env where
  "envDown = envOk\<lparr>set_fails := True\<rparr>"

text \<open>The grant of user \<open>u\<close> on document \<open>d\<close>, as the admin routes create it.\<close>

definition grant :: "int \<Rightarrow> int \<Rightarrow> access" where
  "grant q used = \<lparr>revoked = False, printQuota = Some q, assignedQuota = Some q,
                    printsUsed = Some used, usedPrints = Some used, lastPrintAt = None\<rparr>"

definition oneGrant :: "int \<Rightarrow> int \<Rightarrow> access_db" where
  "oneGrant q used = Map.empty((''d'', ''u'') \<mapsto> grant q used)"

text \<open>An empty cache, and a cache whose quota hash holds \<open>remaining\<close>.\<close>

definition coldState :: "int \<Rightarrow> int \<Rightarrow> qstate" where
  "coldState q used = \<lparr>cache = \<lparr>strs = Map.empty, hashes = Map.empty\<rparr>, db = oneGrant q used\<rparr>"

definition warmState :: "int \<Rightarrow> int \<Rightarrow> int \<Rightarrow> qstate" where
  "warmState remaining q used =
     \<lparr>cache = \<lparr>strs = Map.empty, hashes = Map.empty(quotaKey ''d'' ''u'' \<mapsto> remaining)\<rparr>,
      db = oneGrant q used\<rparr>"

text \<open>
  Three requests against a grant of quota 2: the first with the cache up (a cache miss,
  seeded from the store), the second while the cache is down, the third with the cache
  up again.
\<close>

definition afterFirst :: "(quota_error + unit) \<times> qstate" where
  "afterFirst = assertAndConsumePrintQuota envOk 0 (coldState 2 0) ''d'' ''u'' ''r1''"

definition afterSecond :: "(quota_error + unit) \<times> qstate" where
  "afterSecond = assertAndConsumePrintQuota envDown 1 (snd afterFirst) ''d'' ''u'' ''r2''"

definition afterThird :: "(quota_error + unit) \<times> qstate" where
  "afterThird = assertAndConsumePrintQuota envOk 2 (snd afterSecond) ''d'' ''u'' ''r3''"

text \<open>
  A request against a grant of quota 3 with one print used (scenario 4 of the
  specification), and the same request repeated one second later.
\<close>

definition firstCall :: "(quota_error + unit) \<times> qstate" where
  "firstCall = assertAndConsumePrintQuota envOk 0 (coldState 3 1) ''d'' ''u'' ''r1''"

definition repeatedCall :: "(quota_error + unit) \<times> qstate" where
  "repeatedCall = assertAndConsumePrintQuota envOk 1 (snd firstCall) ''d'' ''u'' ''r1''"

text \<open>What an observer reads from the durable store: (printsUsed, printQuota).\<close>

definition observe :: "qstate \<Rightarrow> (int option \<times> int option) option" where
  "observe s = map_option (\<lambda>a. (printsUsed a, printQuota a)) (db s (''d'', ''u''))"

section \<open>Payload MAC\<close>

text \<open>
  \<open>hmac.js\<close>. The canonical serialisation (\<open>stableStringify\<close>, built on the runtime's
  \<open>JSON.stringify\<close>) enters as its result, the string \<open>canonical\<close>, and HMAC-SHA256
  (\<open>crypto.createHmac\<close>) as a parameter whose digest is a 256-bit word.
  \<open>digest('hex')\<close> writes the digest as 64 lower-case hexadecimal digits.
\<close>

definition hexDigit :: "nat \<Rightarrow> char" where
  "hexDigit n = ''0123456789abcdef'' ! (n mod 16)"

definition toHex :: "256 word \<Rightarrow> string" where
  "toHex w = map (\<lambda>i. hexDigit (unat (drop_bit (4 * (63 - i)) w) mod 16)) [0..<64]"

datatype worker_error =
    PrintJobNotFound
  | InvalidVectorMetadata
  | HmacVerificationFailed
  | HmacSecretNotConfigured
  | TimingSafeEqualRangeError
  | RenderFailed
  | PipelineBroken
  | ReferenceError string
  | MissingRenderedPages
  | MergeExceededTimeBudget
  | PdfLoadFailed
  | UploadFailed

text \<open>
  \<open>signJobPayload\<close>: \<open>secret\<close> is \<open>process.env.JOB_PAYLOAD_HMAC_SECRET\<close> (absent or empty:
  the function throws); \<open>canonical\<close> is \<open>stableStringify(payload)\<close>.
\<close>

definition signJobPayload ::
  "(string \<Rightarrow> string \<Rightarrow> 256 word) \<Rightarrow> string option \<Rightarrow> string \<Rightarrow> worker_error + string" where
  "signJobPayload hmacSha256 secret canonical =
     (case secret of
        None \<Rightarrow> Inl HmacSecretNotConfigured
      | Some k \<Rightarrow> if k = [] then Inl HmacSecretNotConfigured
                  else Inr (toHex (hmacSha256 k canonical)))"

text \<open>
  \<open>crypto.timingSafeEqual\<close> throws a \<open>RangeError\<close> when its two buffers differ in byte
  length, and compares them otherwise.
\<close>

definition timingSafeEqual :: "string \<Rightarrow> string \<Rightarrow> worker_error + bool" where
  "timingSafeEqual a b =
     (if length a \<noteq> length b then Inl TimingSafeEqualRangeError else Inr (a = b))"

definition verifyJobPayload ::
  "(string \<Rightarrow> string \<Rightarrow> 256 word) \<Rightarrow> string option \<Rightarrow> string \<Rightarrow> string \<Rightarrow> worker_error + bool" where
  "verifyJobPayload hmacSha256 secret canonical expectedHmac =
     (case signJobPayload hmacSha256 secret canonical of
        Inl e \<Rightarrow> Inl e
      | Inr actual \<Rightarrow> timingSafeEqual actual expectedHmac)"

section \<open>Render jobs\<close>

subsection \<open>Data model\<close>

datatype job_status = PENDING | RUNNING | DONE | FAILED | EXPIRED

text \<open>The audit log: one constructor per event, carrying the event's details.\<close>

datatype audit_event =
    JOB_CREATED nat
  | JOB_ENQUEUED
  | PAGE_RENDERED nat
  | MERGE_JOB_STARTED
  | MERGE_PROGRESS nat
  | FINAL_MERGE_DONE
  | JOB_DONE string
  | MERGE_TIME
  | JOB_FAILED string string

text \<open>
  The fields of the vector metadata the scheduler reads itself; the rest (crop, layout,
  series, watermarks) is \<open>md_rest\<close>, which only validation and the layout engine look at.
\<close>

record 'r vector_metadata =
  md_documentId :: "string option"
  md_sourcePdfKey :: "string option"
  md_totalPages :: "nat option"
  md_rest :: 'r

text \<open>A \<open>VectorPrintJob\<close> document; \<open>output_key\<close> is \<open>output.key\<close>.\<close>

record 'r print_job =
  status :: job_status
  progress :: int
  totalPages :: nat
  metadata :: "'r vector_metadata"
  payloadHmac :: string
  sourcePdfKey :: string
  audit :: "audit_event list"
  output_key :: "string option"
  error :: "(string \<times> string option) option"

text \<open>
  The collaborators of the scheduler: validation (\<open>validation.js\<close>,
  \<open>hardeningValidation.js\<close>; \<open>True\<close> means accepted), the canonical serialisation and the
  keyed hash of the MAC, the layout engine followed by \<open>save()\<close> (\<open>None\<close>: it throws),
  base64 encoding, \<open>PDFDocument.load\<close> of a decoded page followed by \<open>copyPages(src, [0])\<close>
  (\<open>None\<close>: it throws), \<open>save()\<close> of the merged document, and the upload (\<open>False\<close>: it
  throws). \<open>'p\<close> is the type of PDF pages.
\<close>

record ('r, 'p) deps =
  validateVectorMetadata :: "'r vector_metadata \<Rightarrow> bool"
  assertVectorJobEnqueueable :: "'r vector_metadata \<Rightarrow> bool"
  stableStringify :: "'r vector_metadata \<Rightarrow> string"
  hmacSha256 :: "string \<Rightarrow> string \<Rightarrow> 256 word"
  secret :: "string option"
  createSinglePage :: "'r vector_metadata \<Rightarrow> nat \<Rightarrow> string option"
  toBase64 :: "string \<Rightarrow> string"
  loadFirstPage :: "string \<Rightarrow> 'p option"
  savePdf :: "'p list \<Rightarrow> string"
  uploadOk :: bool

subsection \<open>The render lock\<close>

text \<open>
  The keys of the render lock in the KV cache: the lock keys (holder job id and expiry
  time), the counter \<open>vector:render:active\<close> (\<open>None\<close>: absent) and the membership keys
  (expiry time).
\<close>

record render_kv =
  locks :: "string \<Rightarrow> (string \<times> nat) option"
  active :: "int option"
  members :: "string \<Rightarrow> nat option"

definition lockKey :: "string \<Rightarrow> string" where
  "lockKey documentId = ''vector:render:lock:'' @ documentId"

definition memberKey :: "string \<Rightarrow> string" where
  "memberKey jobId = ''vector:render:active:'' @ jobId"

text \<open>\<open>GET\<close> of a lock key, and \<open>EXISTS\<close> of a membership key, at time \<open>now\<close>.\<close>

definition getLock :: "nat \<Rightarrow> render_kv \<Rightarrow> string \<Rightarrow> string option" where
  "getLock now kv k =
     (case locks kv k of None \<Rightarrow> None | Some (v, e) \<Rightarrow> if now < e then Some v else None)"

definition existsMember :: "nat \<Rightarrow> render_kv \<Rightarrow> string \<Rightarrow> bool" where
  "existsMember now kv k = (case members kv k of None \<Rightarrow> False | Some e \<Rightarrow> now < e)"

text \<open>\<open>tonumber(redis.call('GET', KEYS[2]) or '0')\<close>\<close>

definition activeCount :: "render_kv \<Rightarrow> int" where
  "activeCount kv = (case active kv of None \<Rightarrow> 0 | Some n \<Rightarrow> n)"

text \<open>
  The reply of \<open>ACQUIRE_RENDER_LOCK_LUA\<close>: \<open>{0, holder}\<close>, \<open>{-1, tostring(active)}\<close> or
  \<open>{1, jobId}\<close>.
\<close>

datatype acquire_reply = Busy string | Throttled int | Acquired string

definition ACQUIRE_RENDER_LOCK_LUA ::
  "nat \<Rightarrow> render_kv \<Rightarrow> string \<Rightarrow> string \<Rightarrow> string \<Rightarrow> nat \<Rightarrow> int \<Rightarrow> acquire_reply \<times> render_kv" where
  "ACQUIRE_RENDER_LOCK_LUA now kv lock_key member_key jobId ttlSeconds maxActiveJobs =
     (case getLock now kv lock_key of
        Some holder \<Rightarrow> (Busy holder, kv)
      | None \<Rightarrow>
          if maxActiveJobs > 0 \<and> activeCount kv \<ge> maxActiveJobs
          then (Throttled (activeCount kv), kv)
          else (Acquired jobId,
                kv\<lparr>locks := (locks kv)(lock_key \<mapsto> (jobId, now + ttlSeconds)),
                   active := Some (activeCount kv + 1),
                   members := (members kv)(member_key \<mapsto> now + ttlSeconds)\<rparr>))"

definition RELEASE_RENDER_LOCK_LUA ::
  "nat \<Rightarrow> render_kv \<Rightarrow> string \<Rightarrow> string \<Rightarrow> string \<Rightarrow> render_kv" where
  "RELEASE_RENDER_LOCK_LUA now kv lock_key member_key jobId =
     (let kv1 = (if getLock now kv lock_key = Some jobId
                 then kv\<lparr>locks := (locks kv)(lock_key := None)\<rparr> else kv)
      in if existsMember now kv1 member_key
         then (let kv2 = kv1\<lparr>members := (members kv1)(member_key := None)\<rparr>
               in if activeCount kv2 > 0 then kv2\<lparr>active := Some (activeCount kv2 - 1)\<rparr> else kv2)
         else kv1)"

text \<open>
  The cache as one request or job step sees it: whether \<open>getRedisClient()\<close> returns a
  client, and whether the script call fails with a transport error.
\<close>

record kv_env =
  kv_client :: bool
  kv_eval_fails :: bool

definition releaseRenderLock ::
  "kv_env \<Rightarrow> nat \<Rightarrow> render_kv \<Rightarrow> string \<Rightarrow> string \<Rightarrow> render_kv" where
  "releaseRenderLock env now kv documentId printJobId =
     (if \<not> kv_client env then kv
      else if documentId = [] \<or> printJobId = [] then kv
      else if kv_eval_fails env then kv
      else RELEASE_RENDER_LOCK_LUA now kv (lockKey documentId) (memberKey printJobId) printJobId)"

text \<open>\<open>a || b\<close> on optional strings: the first that is present and not empty.\<close>

definition orElse :: "string option \<Rightarrow> string option \<Rightarrow> string option" where
  "orElse a b = (case a of Some s \<Rightarrow> if s = [] then b else Some s | None \<Rightarrow> b)"

text \<open>
  \<open>String(jobDoc?.metadata?.documentId || jobDoc?.metadata?.sourcePdfKey
     || jobDoc?.sourcePdfKey || '').trim()\<close>
\<close>

definition jobDocumentId :: "'r print_job \<Rightarrow> string" where
  "jobDocumentId jobDoc =
     trim (case orElse (md_documentId (metadata jobDoc))
                  (orElse (md_sourcePdfKey (metadata jobDoc)) (Some (sourcePdfKey jobDoc))) of
             Some s \<Rightarrow> s | None \<Rightarrow> [])"

text \<open>The state the workers and the admission route act on.\<close>

record 'r sched =
  jobs :: "string \<Rightarrow> 'r print_job option"
  kv :: render_kv
  blobs :: "string \<Rightarrow> string option"

subsection \<open>Workers\<close>

definition updateProgress :: "'r print_job \<Rightarrow> int \<Rightarrow> audit_event \<Rightarrow> 'r print_job" where
  "updateProgress jobDoc pct ev =
     jobDoc\<lparr>progress := max 0 (min 100 pct), audit := audit jobDoc @ [ev]\<rparr>"

datatype b64_field = Undefined | Null | B64 string

text \<open>
  An entry of a child's \<open>pages\<close> array. \<open>pageIndex\<close> is \<open>None\<close> when \<open>Number(pageIndex)\<close>
  is not an integer index (absent, not a number, fractional).
\<close>

record page_entry =
  pageIndex :: "int option"
  pdfBase64 :: b64_field

datatype batch_result = Skipped | Pages "page_entry list"

text \<open>The data of a \<open>batch\<close> job.\<close>

record batch_data =
  data_printJobId :: string
  data_startPage :: nat
  data_endPage :: nat
  data_totalPages :: nat

text \<open>\<open>Number(totalPages || jobDoc.totalPages || 1)\<close>\<close>

definition batchTotal :: "batch_data \<Rightarrow> 'r print_job \<Rightarrow> nat" where
  "batchTotal d jobDoc =
     (if data_totalPages d \<noteq> 0 then data_totalPages d
      else if totalPages jobDoc \<noteq> 0 then totalPages jobDoc else 1)"

text \<open>
  The page loop of \<open>processBatch\<close>, over the page indexes still to render. The progress
  percentage \<open>Math.floor((rendered / Math.max(1, N)) * 80)\<close> is computed in exact
  arithmetic.
\<close>

fun renderPages ::
  "('r, 'p) deps \<Rightarrow> nat \<Rightarrow> 'r print_job \<Rightarrow> nat list \<Rightarrow> page_entry list
     \<Rightarrow> (worker_error + page_entry list) \<times> 'r print_job" where
  "renderPages D N jobDoc [] out = (Inr out, jobDoc)"
| "renderPages D N jobDoc (pageIdx # rest) out =
     (case createSinglePage D (metadata jobDoc) pageIdx of
        None \<Rightarrow> (Inl RenderFailed, jobDoc)
      | Some pageBytes \<Rightarrow>
          if take 5 pageBytes \<noteq> ''%PDF-'' then (Inl PipelineBroken, jobDoc)
          else
            (let out' = out @ [\<lparr>pageIndex = Some (int pageIdx),
                                 pdfBase64 = B64 (toBase64 D pageBytes)\<rparr>];
                 rendered = min (pageIdx + 1) N;
                 pct = (int rendered * 80) div int (max 1 N)
             in renderPages D N (updateProgress jobDoc (max (progress jobDoc) pct)
                                   (PAGE_RENDERED pageIdx)) rest out'))"

text \<open>
  The statement after the loop, \<open>console.log(JSON.stringify({ ..., documentId, ...,
  ms: Date.now() - batchStart }))\<close>: neither \<open>documentId\<close> nor \<open>batchStart\<close> is declared
  in \<open>processBatch\<close> or in its module, so evaluating the object literal throws a
  \<open>ReferenceError\<close> at \<open>documentId\<close>.
\<close>

definition logBatchDone :: "worker_error + unit" where
  "logBatchDone = Inl (ReferenceError ''documentId'')"

definition processBatch ::
  "('r, 'p) deps \<Rightarrow> 'r sched \<Rightarrow> batch_data
     \<Rightarrow> (worker_error + batch_result) \<times> 'r sched" where
  "processBatch D st d =
     (case jobs st (data_printJobId d) of
        None \<Rightarrow> (Inl PrintJobNotFound, st)
      | Some jobDoc \<Rightarrow>
          if status jobDoc = EXPIRED then (Inr Skipped, st)
          else if \<not> validateVectorMetadata D (metadata jobDoc) then (Inl InvalidVectorMetadata, st)
          else
            (case verifyJobPayload (hmacSha256 D) (secret D) (stableStringify D (metadata jobDoc))
                    (payloadHmac jobDoc) of
               Inl e \<Rightarrow> (Inl e, st)
             | Inr verified \<Rightarrow>
                 if \<not> verified then (Inl HmacVerificationFailed, st)
                 else
                   (case renderPages D (batchTotal d jobDoc) jobDoc
                           [data_startPage d ..< data_endPage d] [] of
                      (Inl e, jobDoc') \<Rightarrow> (Inl e, st\<lparr>jobs := (jobs st)(data_printJobId d \<mapsto> jobDoc')\<rparr>)
                    | (Inr out, jobDoc') \<Rightarrow>
                        (case logBatchDone of
                           Inl e \<Rightarrow> (Inl e, st\<lparr>jobs := (jobs st)(data_printJobId d \<mapsto> jobDoc')\<rparr>)
                         | Inr _ \<Rightarrow> (Inr (Pages out),
                                     st\<lparr>jobs := (jobs st)(data_printJobId d \<mapsto> jobDoc')\<rparr>)))))"














subsection \<open>The handler of failed queue attempts\<close>

text \<open>
  The queue job and the error passed to \<open>worker.on('failed', ...)\<close>: \<open>job.id\<close>,
  \<open>job.name\<close>, \<open>job.data.printJobId\<close>, \<open>job.opts.attempts\<close> and \<open>job.attemptsMade\<close>.
\<close>

record queue_job =
  job_id :: string
  job_name :: string
  job_printJobId :: "string option"
  opts_attempts :: "nat option"
  attemptsMade :: "nat option"

record js_error =
  err_message :: "string option"
  err_stack :: "string option"

text \<open>\<open>attemptsMade >= attempts\<close>, with \<open>Number(attempts || 1)\<close> and \<open>Number(attemptsMade || 0)\<close>.\<close>

definition isFinalFailure :: "queue_job \<Rightarrow> bool" where
  "isFinalFailure job =
     ((case attemptsMade job of None \<Rightarrow> 0 | Some m \<Rightarrow> m)
        \<ge> (case opts_attempts job of None \<Rightarrow> 1 | Some a \<Rightarrow> if a = 0 then 1 else a))"

definition onFailed ::
  "kv_env \<Rightarrow> nat \<Rightarrow> 'r sched \<Rightarrow> queue_job \<Rightarrow> js_error \<Rightarrow> 'r sched" where
  "onFailed env now st job err =
     (case job_printJobId job of
        None \<Rightarrow> st
      | Some printJobId \<Rightarrow>
          if printJobId = [] then st
          else
            (case jobs st printJobId of
               None \<Rightarrow> st
             | Some jobDoc \<Rightarrow>
                 (let jobDoc' = jobDoc\<lparr>status := FAILED,
                                  error := Some (case orElse (err_message err) None of
                                                   Some m \<Rightarrow> m | None \<Rightarrow> ''Job failed'',
                                                 orElse (err_stack err) None),
                                  audit := audit jobDoc @ [JOB_FAILED (job_id job) (job_name job)]\<rparr>;
                      st1 = st\<lparr>jobs := (jobs st)(printJobId \<mapsto> jobDoc')\<rparr>
                  in if isFinalFailure job
                     then st1\<lparr>kv := releaseRenderLock env now (kv st1) (jobDocumentId jobDoc')
                                      printJobId\<rparr>
                     else st1)))"

subsection \<open>Admission\<close>

text \<open>
  \<open>POST /jobs\<close>. \<open>LOCK_TTL_SECONDS\<close> and \<open>MAX_ACTIVE_JOBS\<close> are read from the environment
  (at least 60, and at least 0). \<open>newJobId\<close> is the id of \<open>new VectorPrintJob()\<close>;
  \<open>enqueueOk\<close> tells whether \<open>enqueueVectorJobFlow\<close> returns.
\<close>

datatype response =
    Resp400
  | Resp429
  | Resp200 string job_status
  | Resp201 string job_status
  | Resp500

text \<open>\<open>String(metadata?.documentId || metadata?.sourcePdfKey || '').trim()\<close>\<close>

definition admissionDocumentId :: "'r vector_metadata \<Rightarrow> string" where
  "admissionDocumentId m =
     trim (case orElse (md_documentId m) (md_sourcePdfKey m) of Some s \<Rightarrow> s | None \<Rightarrow> [])"

text \<open>The \<open>catch\<close> of the route: release the lock taken for the preallocated id.\<close>

definition admissionFailed ::
  "kv_env \<Rightarrow> nat \<Rightarrow> 'r sched \<Rightarrow> string \<Rightarrow> string option
     \<Rightarrow> response \<times> 'r sched" where
  "admissionFailed env now st documentId preId =
     (Resp500,
      case preId of
        None \<Rightarrow> st
      | Some j \<Rightarrow> st\<lparr>kv := releaseRenderLock env now (kv st) documentId j\<rparr>)"

text \<open>The route from \<open>signJobPayload(metadata)\<close> on.\<close>

definition createAndEnqueue ::
  "('r, 'p) deps \<Rightarrow> kv_env \<Rightarrow> bool \<Rightarrow> nat \<Rightarrow> 'r sched \<Rightarrow> 'r vector_metadata \<Rightarrow> string
     \<Rightarrow> string \<Rightarrow> string option \<Rightarrow> response \<times> 'r sched" where
  "createAndEnqueue D env enqueueOk now st m documentId newJobId preId =
     (case signJobPayload (hmacSha256 D) (secret D) (stableStringify D m) of
        Inl e \<Rightarrow> admissionFailed env now st documentId preId
      | Inr mac \<Rightarrow>
          (let total = (case md_totalPages m of None \<Rightarrow> 1 | Some n \<Rightarrow> if n = 0 then 1 else n);
               jobDoc = \<lparr>status = PENDING, progress = 0, totalPages = total, metadata = m,
                         payloadHmac = mac,
                         sourcePdfKey = (case md_sourcePdfKey m of Some k \<Rightarrow> k | None \<Rightarrow> []),
                         audit = [JOB_CREATED total], output_key = None, error = None\<rparr>;
               st1 = st\<lparr>jobs := (jobs st)(newJobId \<mapsto> jobDoc)\<rparr>
           in if \<not> enqueueOk then admissionFailed env now st1 documentId preId
              else (Resp201 newJobId PENDING,
                    st1\<lparr>jobs := (jobs st1)(newJobId \<mapsto> jobDoc\<lparr>audit := audit jobDoc @ [JOB_ENQUEUED]\<rparr>)\<rparr>)))"

definition post_jobs ::
  "('r, 'p) deps \<Rightarrow> kv_env \<Rightarrow> bool \<Rightarrow> nat \<Rightarrow> int \<Rightarrow> nat \<Rightarrow> 'r sched
     \<Rightarrow> 'r vector_metadata \<Rightarrow> string \<Rightarrow> response \<times> 'r sched" where
  "post_jobs D env enqueueOk LOCK_TTL_SECONDS MAX_ACTIVE_JOBS now st m newJobId =
     (if \<not> validateVectorMetadata D m then (Resp400, st)
      else if \<not> assertVectorJobEnqueueable D m then (Resp400, st)
      else
        (let documentId = admissionDocumentId m in
         if documentId = [] then (Resp400, st)
         else if kv_client env then
           (if kv_eval_fails env
            then createAndEnqueue D env enqueueOk now st m documentId newJobId (Some newJobId)
            else
              (case ACQUIRE_RENDER_LOCK_LUA now (kv st) (lockKey documentId) (memberKey newJobId)
                      newJobId LOCK_TTL_SECONDS MAX_ACTIVE_JOBS of
                 (Throttled n, kv') \<Rightarrow> (Resp429, st\<lparr>kv := kv'\<rparr>)
               | (Busy holder, kv') \<Rightarrow>
                   (let existingJobId = trim holder in
                    if existingJobId \<noteq> [] then (Resp200 existingJobId PENDING, st\<lparr>kv := kv'\<rparr>)
                    else createAndEnqueue D env enqueueOk now (st\<lparr>kv := kv'\<rparr>) m documentId
                           newJobId (Some newJobId))
               | (Acquired j, kv') \<Rightarrow>
                   createAndEnqueue D env enqueueOk now (st\<lparr>kv := kv'\<rparr>) m documentId newJobId
                     (Some newJobId)))
         else createAndEnqueue D env enqueueOk now st m documentId newJobId None))"

section \<open>JavaScript numbers\<close>

text \<open>
  A JavaScript number is an IEEE 754 double. \<open>Finite q\<close> is the finite double whose value
  is the rational \<open>q\<close>, \<open>PosInf\<close> and \<open>NegInf\<close> are the infinities and \<open>NaN\<close> is not-a-number.
  The two zeros are not told apart; a zero divisor is taken as \<open>+0\<close>.

  A finite double is \<open>m * 2^p\<close> for integers \<open>\<bar>m\<bar> \<le> 2^53\<close> and \<open>p \<ge> -1074\<close>, of magnitude below
  \<open>2^1024\<close>. \<open>fl q\<close> is the double nearest to the rational \<open>q\<close>, ties to the even \<open>m\<close>:
  \<open>ilog2 a\<close> is the exponent \<open>e\<close> with \<open>2^e \<le> a < 2^(e+1)\<close>, \<open>quantum a\<close> the exponent \<open>p\<close> of
  the spacing of the doubles around \<open>a\<close>, and what rounds to \<open>2^1024\<close> or more is infinite.
  Every arithmetic operation is the exact operation followed by \<open>fl\<close>.
\<close>

datatype double = Finite rat | PosInf | NegInf | NaN

definition pow2 :: "int \<Rightarrow> rat" where
  "pow2 k = (if 0 \<le> k then 2 ^ nat k else 1 / 2 ^ nat (- k))"

definition ilog2 :: "rat \<Rightarrow> int" where
  "ilog2 a = (if 1 \<le> a then bitlen \<lfloor>a\<rfloor> - 1 else - bitlen (\<lceil>1 / a\<rceil> - 1))"

definition roundHalfEven :: "rat \<Rightarrow> int" where
  "roundHalfEven x =
     (if x - of_int \<lfloor>x\<rfloor> < 1 / 2 then \<lfloor>x\<rfloor>
      else if 1 / 2 < x - of_int \<lfloor>x\<rfloor> then \<lfloor>x\<rfloor> + 1
      else if even \<lfloor>x\<rfloor> then \<lfloor>x\<rfloor> else \<lfloor>x\<rfloor> + 1)"

definition quantum :: "rat \<Rightarrow> int" where
  "quantum a = max (ilog2 a - 52) (- 1074)"

definition roundTo :: "int \<Rightarrow> rat \<Rightarrow> rat" where
  "roundTo p a = of_int (roundHalfEven (a / pow2 p)) * pow2 p"

definition fl :: "rat \<Rightarrow> double" where
  "fl q =
     (if q = 0 then Finite 0
      else if pow2 1024 \<le> roundTo (quantum \<bar>q\<bar>) \<bar>q\<bar> then (if 0 < q then PosInf else NegInf)
      else Finite (if 0 < q then roundTo (quantum \<bar>q\<bar>) \<bar>q\<bar> else - roundTo (quantum \<bar>q\<bar>) \<bar>q\<bar>))"



text \<open>\<open>Number.isFinite(d)\<close>, and whether \<open>d || e\<close> is \<open>d\<close>.\<close>

definition isFinite :: "double \<Rightarrow> bool" where
  "isFinite d = (case d of Finite q \<Rightarrow> True | _ \<Rightarrow> False)"

definition truthy :: "double \<Rightarrow> bool" where
  "truthy d = (d \<noteq> NaN \<and> d \<noteq> Finite 0)"

text \<open>The sign of a number (0 for zero and for \<open>NaN\<close>), and the infinity of a sign.\<close>

definition signOf :: "double \<Rightarrow> rat" where
  "signOf x = (case x of Finite a \<Rightarrow> sgn a | PosInf \<Rightarrow> 1 | NegInf \<Rightarrow> - 1 | NaN \<Rightarrow> 0)"

definition signedInf :: "rat \<Rightarrow> double" where
  "signedInf s = (if 0 < s then PosInf else if s < 0 then NegInf else NaN)"

text \<open>The operators \<open>-x\<close>, \<open>x + y\<close>, \<open>x - y\<close>, \<open>x * y\<close>, \<open>x / y\<close>, \<open>x < y\<close> and \<open>x <= y\<close>.\<close>

instantiation double :: "{uminus, plus, minus, times, inverse, ord}"
begin

definition uminus_double :: "double \<Rightarrow> double" where
  "uminus_double x =
     (case x of Finite a \<Rightarrow> Finite (- a) | PosInf \<Rightarrow> NegInf | NegInf \<Rightarrow> PosInf | NaN \<Rightarrow> NaN)"

definition plus_double :: "double \<Rightarrow> double \<Rightarrow> double" where
  "plus_double x y =
     (case x of
        Finite a \<Rightarrow> (case y of Finite b \<Rightarrow> fl (a + b) | _ \<Rightarrow> y)
      | PosInf \<Rightarrow> (case y of NegInf \<Rightarrow> NaN | NaN \<Rightarrow> NaN | _ \<Rightarrow> PosInf)
      | NegInf \<Rightarrow> (case y of PosInf \<Rightarrow> NaN | NaN \<Rightarrow> NaN | _ \<Rightarrow> NegInf)
      | NaN \<Rightarrow> NaN)"

definition minus_double :: "double \<Rightarrow> double \<Rightarrow> double" where
  "minus_double x y = x + (- y)"

definition times_double :: "double \<Rightarrow> double \<Rightarrow> double" where
  "times_double x y =
     (case x of
        Finite a \<Rightarrow> (case y of Finite b \<Rightarrow> fl (a * b) | _ \<Rightarrow> signedInf (sgn a * signOf y))
      | NaN \<Rightarrow> NaN
      | _ \<Rightarrow> signedInf (signOf x * signOf y))"

definition divide_double :: "double \<Rightarrow> double \<Rightarrow> double" where
  "divide_double x y =
     (case x of
        Finite a \<Rightarrow>
          (case y of
             Finite b \<Rightarrow> if b = 0 then signedInf (sgn a) else fl (a / b)
           | NaN \<Rightarrow> NaN
           | _ \<Rightarrow> Finite 0)
      | NaN \<Rightarrow> NaN
      | _ \<Rightarrow> (case y of
                Finite b \<Rightarrow> signedInf (signOf x * (if b < 0 then - 1 else 1))
              | _ \<Rightarrow> NaN))"

definition inverse_double :: "double \<Rightarrow> double" where
  "inverse_double x = Finite 1 div x"

definition less_double :: "double \<Rightarrow> double \<Rightarrow> bool" where
  "less_double x y =
     (case x of
        Finite a \<Rightarrow> (case y of Finite b \<Rightarrow> a < b | PosInf \<Rightarrow> True | _ \<Rightarrow> False)
      | NegInf \<Rightarrow> (case y of Finite b \<Rightarrow> True | PosInf \<Rightarrow> True | _ \<Rightarrow> False)
      | _ \<Rightarrow> False)"

definition less_eq_double :: "double \<Rightarrow> double \<Rightarrow> bool" where
  "less_eq_double x y = (x \<noteq> NaN \<and> y \<noteq> NaN \<and> (x = y \<or> x < y))"

instance ..

end

text \<open>\<open>Math.max(a, b)\<close>, \<open>Math.min(a, b)\<close> and \<open>Math.round(x)\<close>, which rounds halves up.\<close>

definition Math_max :: "double \<Rightarrow> double \<Rightarrow> double" where
  "Math_max a b = (if a = NaN \<or> b = NaN then NaN else if a < b then b else a)"

definition Math_min :: "double \<Rightarrow> double \<Rightarrow> double" where
  "Math_min a b = (if a = NaN \<or> b = NaN then NaN else if b < a then b else a)"

definition Math_round :: "double \<Rightarrow> double" where
  "Math_round x = (case x of Finite q \<Rightarrow> Finite (of_int \<lfloor>q + 1 / 2\<rfloor>) | _ \<Rightarrow> x)"

text \<open>An array index or an array length as a number.\<close>

definition number :: "nat \<Rightarrow> double" where
  "number n = Finite (of_nat n)"


section \<open>Vector layout engine\<close>




text \<open>\<open>Math.round(v * 1000) / 1000\<close>\<close>

definition snap :: "double \<Rightarrow> double" where
  "snap v = Math_round (v * Finite 1000) / Finite 1000"

subsection \<open>Slot grid\<close>


text \<open>
  What the layout engine throws: the \<open>RangeError\<close> of \<open>new Array\<close>, the \<open>RangeError\<close> of a
  string longer than the runtime allows, and the two errors of the series loop.
\<close>

datatype layout_error =
  InvalidArrayLength | InvalidStringLength | InvalidObjectBBoxPt | InvalidSlotScale


subsection \<open>Series numbers\<close>

text \<open>The decimal numeral of an integer.\<close>

fun showNat :: "nat \<Rightarrow> string" where
  "showNat n = (if n < 10 then [''0123456789'' ! n]
                else showNat (n div 10) @ [''0123456789'' ! (n mod 10)])"

definition showInt :: "int \<Rightarrow> string" where
  "showInt n = (if n < 0 then CHR ''-'' # showNat (nat (- n)) else showNat (nat n))"

record series_slot =
  xRatio :: double
  yRatio :: double

text \<open>
  A series configuration. \<open>sc_prefix\<close> is \<open>None\<close> when \<open>prefix\<close> is not a string,
  \<open>sc_padLength\<close>, \<open>sc_font\<close>, \<open>sc_color\<close>, \<open>sc_letterFontSizes\<close> and \<open>sc_letterOffsets\<close>
  when the field is absent (or, for the last two, not an array). \<open>start\<close>, \<open>step\<close> and
  \<open>fontSize\<close> are numbers, as the validation of the job requires, and so are \<open>padLength\<close>
  and the entries of \<open>letterFontSizes\<close> and \<open>letterOffsets\<close>.
\<close>

record series_config =
  sc_prefix :: "string option"
  sc_start :: double
  sc_step :: double
  sc_padLength :: "double option"
  sc_font :: "string option"
  sc_fontSize :: double
  sc_color :: "string option"
  sc_slots :: "series_slot list"
  sc_letterFontSizes :: "double list option"
  sc_letterOffsets :: "double list option"

text \<open>What \<open>drawSourceFragment\<close> recorded for a slot.\<close>

record placement =
  objectBBoxPt_width :: double
  objectBBoxPt_height :: double
  slotScale :: double
  contentLeft :: double
  contentBottom :: double

text \<open>
  A call of \<open>page.drawText\<close>. \<open>dt_color\<close> is the string handed to \<open>parseColor\<close>, which
  maps \<open>#000000\<close> to \<open>rgb(0, 0, 0)\<close>.
\<close>

record draw_text =
  dt_text :: string
  dt_x :: double
  dt_y :: double
  dt_size :: double
  dt_color :: string

text \<open>
  What the series loop takes from its surroundings. The embedded font: \<open>fm_ascent font size\<close>
  is \<open>heightAtSize(size, { descender: false })\<close> and \<open>fm_width font text size\<close> is
  \<open>widthOfTextAtSize(text, size)\<close>, for the font family \<open>font\<close>. \<open>cal_dx\<close>, \<open>cal_dy\<close> are the
  engine's calibration offsets. The runtime: \<open>num_digits q\<close> is \<open>String(q)\<close> for a finite
  number \<open>q\<close> that is not an integer of magnitude at most \<open>2^53\<close>, and \<open>max_string_length\<close> is
  the longest string the runtime builds (\<open>2^29 - 24\<close> in Node.js 18).
\<close>

record engine =
  fm_ascent :: "string \<Rightarrow> double \<Rightarrow> double"
  fm_width :: "string \<Rightarrow> string \<Rightarrow> double \<Rightarrow> double"
  cal_dx :: double
  cal_dy :: double
  num_digits :: "rat \<Rightarrow> string"
  max_string_length :: nat

text \<open>\<open>String(x)\<close> for a number \<open>x\<close>.\<close>

definition numberToString :: "engine \<Rightarrow> double \<Rightarrow> string" where
  "numberToString E x =
     (case x of
        Finite q \<Rightarrow>
          if q = of_int \<lfloor>q\<rfloor> \<and> \<bar>q\<bar> \<le> 2 ^ 53 then showInt \<lfloor>q\<rfloor> else num_digits E q
      | PosInf \<Rightarrow> ''Infinity''
      | NegInf \<Rightarrow> ''-Infinity''
      | NaN \<Rightarrow> ''NaN'')"

text \<open>
  \<open>s.padStart(maxLength, '0')\<close>: \<open>maxLength\<close> is cut to an integer from 0 to \<open>2^53 - 1\<close>; a
  string that is long enough is returned as it is, and padding beyond the longest string
  throws a \<open>RangeError\<close>.
\<close>

definition toLength :: "double \<Rightarrow> nat" where
  "toLength x =
     (case x of
        Finite q \<Rightarrow> nat (min \<lfloor>q\<rfloor> (2 ^ 53 - 1))
      | PosInf \<Rightarrow> 2 ^ 53 - 1
      | _ \<Rightarrow> 0)"

definition padStart0 :: "engine \<Rightarrow> double \<Rightarrow> string \<Rightarrow> layout_error + string" where
  "padStart0 E maxLength s =
     (let intMaxLength = toLength maxLength
      in if intMaxLength \<le> length s then Inr s
         else if max_string_length E < intMaxLength then Inl InvalidStringLength
         else Inr (replicate (intMaxLength - length s) CHR ''0'' @ s))"

text \<open>The series value of slot \<open>slotIdx\<close> on page \<open>pageIdx\<close>.\<close>

definition seriesValue ::
  "engine \<Rightarrow> series_config \<Rightarrow> double \<Rightarrow> double \<Rightarrow> nat \<Rightarrow> layout_error + string" where
  "seriesValue E seriesConfig pageIdx repeatPerPage slotIdx =
     (let globalIdx = pageIdx * repeatPerPage + number slotIdx;
          seriesNumber = sc_start seriesConfig + globalIdx * sc_step seriesConfig;
          padLength = (case sc_padLength seriesConfig of
                         None \<Rightarrow> Finite 0
                       | Some n \<Rightarrow> if truthy n then n else Finite 0);
          prefix = (case sc_prefix seriesConfig of None \<Rightarrow> [] | Some s \<Rightarrow> s);
          digits = numberToString E seriesNumber
      in case (if Finite 0 < padLength then padStart0 E padLength digits else Inr digits) of
           Inl e \<Rightarrow> Inl e
         | Inr padded \<Rightarrow>
             if max_string_length E < length prefix + length padded then Inl InvalidStringLength
             else Inr (prefix @ padded))"

text \<open>\<open>seriesConfig.font || 'Helvetica'\<close>, \<open>seriesConfig.color || '#000000'\<close>\<close>

definition fontOf :: "series_config \<Rightarrow> string" where
  "fontOf seriesConfig = (case orElse (sc_font seriesConfig) None of Some f \<Rightarrow> f | None \<Rightarrow> ''Helvetica'')"

definition colorOf :: "series_config \<Rightarrow> string" where
  "colorOf seriesConfig = (case orElse (sc_color seriesConfig) None of Some c \<Rightarrow> c | None \<Rightarrow> ''#000000'')"

text \<open>\<open>Number(xs[li] || dflt)\<close>: the entry when it is there and neither zero nor \<open>NaN\<close>.\<close>

definition entryOr :: "double list option \<Rightarrow> nat \<Rightarrow> double \<Rightarrow> double" where
  "entryOr xs li dflt =
     (case xs of
        None \<Rightarrow> dflt
      | Some l \<Rightarrow> if li < length l \<and> truthy (l ! li) then l ! li else dflt)"

text \<open>The per-letter loop, from letter \<open>li\<close> on.\<close>

fun drawLetters ::
  "engine \<Rightarrow> series_config \<Rightarrow> double \<Rightarrow> double \<Rightarrow> double \<Rightarrow> nat \<Rightarrow> string \<Rightarrow> draw_text list" where
  "drawLetters E seriesConfig scale drawY cursorX li [] = []"
| "drawLetters E seriesConfig scale drawY cursorX li (ch # rest) =
     (let size = entryOr (sc_letterFontSizes seriesConfig) li (sc_fontSize seriesConfig) * scale;
          offsetY = entryOr (sc_letterOffsets seriesConfig) li (Finite 0);
          baseline = drawY + offsetY
      in \<lparr>dt_text = [ch], dt_x = cursorX, dt_y = baseline, dt_size = size,
           dt_color = colorOf seriesConfig\<rparr>
         # drawLetters E seriesConfig scale drawY
             (cursorX + fm_width E (fontOf seriesConfig) [ch] size) (li + 1) rest)"

text \<open>The body of the slot loop once the slot definition is known to exist.\<close>

definition drawSeriesSlot ::
  "engine \<Rightarrow> series_config \<Rightarrow> double \<Rightarrow> double \<Rightarrow> nat \<Rightarrow> series_slot \<Rightarrow> placement
     \<Rightarrow> layout_error + draw_text list" where
  "drawSeriesSlot E seriesConfig pageIdx repeatPerPage slotIdx sl pl =
     (case seriesValue E seriesConfig pageIdx repeatPerPage slotIdx of
        Inl e \<Rightarrow> Inl e
      | Inr value \<Rightarrow>
          if \<not> isFinite (objectBBoxPt_width pl) \<or> \<not> isFinite (objectBBoxPt_height pl)
             \<or> objectBBoxPt_width pl \<le> Finite 0 \<or> objectBBoxPt_height pl \<le> Finite 0
          then Inl InvalidObjectBBoxPt
          else if \<not> isFinite (slotScale pl) \<or> slotScale pl \<le> Finite 0 then Inl InvalidSlotScale
          else
            (let textTopLeftPt_x = xRatio sl * objectBBoxPt_width pl;
                 textTopLeftPt_y = yRatio sl * objectBBoxPt_height pl;
                 fontSizePt = sc_fontSize seriesConfig;
                 finalFontSizePt = fontSizePt * slotScale pl;
                 baselineY = textTopLeftPt_y + fm_ascent E (fontOf seriesConfig) fontSizePt;
                 objectTopY = contentBottom pl + objectBBoxPt_height pl * slotScale pl;
                 seriesPageX = contentLeft pl + textTopLeftPt_x * slotScale pl;
                 seriesPageY = objectTopY - baselineY * slotScale pl;
                 drawX = snap (seriesPageX + cal_dx E);
                 drawY = snap (seriesPageY + cal_dy E)
             in case sc_letterFontSizes seriesConfig of
                  None \<Rightarrow> Inr [\<lparr>dt_text = value, dt_x = drawX, dt_y = drawY,
                                   dt_size = finalFontSizePt, dt_color = colorOf seriesConfig\<rparr>]
                | Some sizes \<Rightarrow>
                    if sizes = []
                    then Inr [\<lparr>dt_text = value, dt_x = drawX, dt_y = drawY,
                                dt_size = finalFontSizePt, dt_color = colorOf seriesConfig\<rparr>]
                    else Inr (drawLetters E seriesConfig (slotScale pl) drawY drawX 0 value)))"

text \<open>
  \<open>slotDefs.length === 1 ? slotDefs[0] : slotDefs[slotIdx]\<close>; \<open>None\<close> is \<open>undefined\<close>, for
  which the loop body is skipped.
\<close>

definition slotDef :: "series_config \<Rightarrow> nat \<Rightarrow> series_slot option" where
  "slotDef seriesConfig slotIdx =
     (let slotDefs = sc_slots seriesConfig
      in if length slotDefs = 1 then Some (slotDefs ! 0)
         else if slotIdx < length slotDefs then Some (slotDefs ! slotIdx) else None)"

text \<open>The slot loop of one series, over the slot indexes still to draw.\<close>

fun drawSlots ::
  "engine \<Rightarrow> series_config \<Rightarrow> double \<Rightarrow> double \<Rightarrow> placement list \<Rightarrow> nat list
     \<Rightarrow> layout_error + draw_text list" where
  "drawSlots E seriesConfig pageIdx repeatPerPage placements [] = Inr []"
| "drawSlots E seriesConfig pageIdx repeatPerPage placements (slotIdx # rest) =
     (case slotDef seriesConfig slotIdx of
        None \<Rightarrow> drawSlots E seriesConfig pageIdx repeatPerPage placements rest
      | Some sl \<Rightarrow>
          (case drawSeriesSlot E seriesConfig pageIdx repeatPerPage slotIdx sl (placements ! slotIdx) of
             Inl e \<Rightarrow> Inl e
           | Inr ds \<Rightarrow>
               (case drawSlots E seriesConfig pageIdx repeatPerPage placements rest of
                  Inl e \<Rightarrow> Inl e
                | Inr ds' \<Rightarrow> Inr (ds @ ds'))))"

text \<open>
  The number of rounds of \<open>for (slotIdx = 0; slotIdx < maxSlots; slotIdx++)\<close> with
  \<open>maxSlots = Math.min(placements.length, Number(repeatPerPage) || placements.length)\<close>.
\<close>

definition maxSlots :: "placement list \<Rightarrow> double \<Rightarrow> nat" where
  "maxSlots placements repeatPerPage =
     (case Math_min (number (length placements))
             (if truthy repeatPerPage then repeatPerPage else number (length placements)) of
        Finite q \<Rightarrow> nat \<lceil>q\<rceil>
      | _ \<Rightarrow> 0)"

fun drawSeriesNumbers ::
  "engine \<Rightarrow> series_config list \<Rightarrow> double \<Rightarrow> double \<Rightarrow> placement list
     \<Rightarrow> layout_error + draw_text list" where
  "drawSeriesNumbers E [] pageIdx repeatPerPage placements = Inr []"
| "drawSeriesNumbers E (seriesConfig # rest) pageIdx repeatPerPage placements =
     (case drawSlots E seriesConfig pageIdx repeatPerPage placements
             [0..<maxSlots placements repeatPerPage] of
        Inl e \<Rightarrow> Inl e
      | Inr ds \<Rightarrow>
          (case drawSeriesNumbers E rest pageIdx repeatPerPage placements of
             Inl e \<Rightarrow> Inl e
           | Inr ds' \<Rightarrow> Inr (ds @ ds')))"

text \<open>
  A placement the series loop accepts, and the draw calls of one slot of one series
  (none when the slot definition is absent).
\<close>

definition validPlacement :: "placement \<Rightarrow> bool" where
  "validPlacement pl =
     (isFinite (objectBBoxPt_width pl) \<and> Finite 0 < objectBBoxPt_width pl
      \<and> isFinite (objectBBoxPt_height pl) \<and> Finite 0 < objectBBoxPt_height pl
      \<and> isFinite (slotScale pl) \<and> Finite 0 < slotScale pl)"

definition slotDraws ::
  "engine \<Rightarrow> series_config \<Rightarrow> double \<Rightarrow> double \<Rightarrow> placement list \<Rightarrow> nat \<Rightarrow> draw_text list" where
  "slotDraws E seriesConfig pageIdx repeatPerPage placements slotIdx =
     (case slotDef seriesConfig slotIdx of
        None \<Rightarrow> []
      | Some sl \<Rightarrow>
          (case drawSeriesSlot E seriesConfig pageIdx repeatPerPage slotIdx sl (placements ! slotIdx) of
             Inl e \<Rightarrow> []
           | Inr ds \<Rightarrow> ds))"

subsection \<open>Sample series\<close>




section \<open>Sample render jobs\<close>

text \<open>
  Concrete collaborators: every metadata is valid, the keyed hash is constantly 0 (so the
  MAC of every payload is 64 zeros), page \<open>i\<close> renders to the bytes \<open>%PDF-i\<close>, base64 is
  the identity, a page loads as its own bytes, and a merged document is \<open>%PDF-\<close> followed
  by its pages.
\<close>

definition sampleDeps :: "(unit, string) deps" where
  "sampleDeps =
     \<lparr>validateVectorMetadata = (\<lambda>m. True),
      assertVectorJobEnqueueable = (\<lambda>m. True),
      stableStringify = (\<lambda>m. ''{}''),
      hmacSha256 = (\<lambda>k msg. 0),
      secret = Some ''k'',
      createSinglePage = (\<lambda>m i. Some (''%PDF-'' @ showNat i)),
      toBase64 = (\<lambda>bytes. bytes),
      loadFirstPage = (\<lambda>b64. Some b64),
      savePdf = (\<lambda>pages. ''%PDF-'' @ concat pages),
      uploadOk = True\<rparr>"

definition sampleMetadata :: "unit vector_metadata" where
  "sampleMetadata = \<lparr>md_documentId = Some ''doc1'', md_sourcePdfKey = Some ''documents/original/a.pdf'',
                      md_totalPages = Some 3, md_rest = ()\<rparr>"

definition sampleJob :: "job_status \<Rightarrow> string \<Rightarrow> unit print_job" where
  "sampleJob st mac =
     \<lparr>status = st, progress = 0, totalPages = 3, metadata = sampleMetadata, payloadHmac = mac,
      sourcePdfKey = ''documents/original/a.pdf'', audit = [JOB_CREATED 3, JOB_ENQUEUED],
      output_key = None, error = None\<rparr>"

definition sampleKv :: render_kv where
  "sampleKv = \<lparr>locks = Map.empty(lockKey ''doc1'' \<mapsto> (''j1'', 1800)), active = Some 1,
               members = Map.empty(memberKey ''j1'' \<mapsto> 1800)\<rparr>"

definition sampleSched :: "job_status \<Rightarrow> string \<Rightarrow> unit sched" where
  "sampleSched st mac = \<lparr>jobs = Map.empty(''j1'' \<mapsto> sampleJob st mac), kv = sampleKv, blobs = Map.empty\<rparr>"

definition kvUp :: kv_env where
  "kvUp = \<lparr>kv_client = True, kv_eval_fails = False\<rparr>"

text \<open>A \<open>batch\<close> attempt that failed for the first time out of three.\<close>

definition retriedJob :: queue_job where
  "retriedJob = \<lparr>job_id = ''7'', job_name = ''batch'', job_printJobId = Some ''j1'',
                  opts_attempts = Some 3, attemptsMade = Some 1\<rparr>"

definition renderError :: js_error where
  "renderError = \<lparr>err_message = Some ''boom'', err_stack = None\<rparr>"



text \<open>The scheduler state in which job \<open>j1\<close> holds the render lock of document \<open>doc1\<close>.\<close>

definition heldSched :: "unit sched" where
  "heldSched = sampleSched PENDING []"

section \<open>Properties of the quota engine\<close>

lemmas quota_eval =
  assertAndConsumePrintQuota_def assertAndConsumePrintQuotaV2_def tryBodyV2_def
  cacheMissRecovery_def afterDecrement_def fallback_def fallbackV2_def
  dbFallbackOptimisticConsume_def dbOptimisticConsume_def writeBehindDbConsume_def
  writeBehindV2_def loadAndComputeRemainingFromDb_def ensureDbQuotaInitialized_def
  seedRedisRemaining_def ATOMIC_PRINT_DECREMENT_def setNxEx_def falsy_def held_def del_def
  reqKey_def quotaKey_def IDEMPOTENCY_TTL_SECONDS_def effectiveQuota_def finiteOrZero_def
  inc1_def trim_def isSpace_def envOk_def envDown_def grant_def oneGrant_def coldState_def
  warmState_def redis_ok_def observe_def Let_def

subsection \<open>Replay of a request id\<close>

text \<open>
  In the engine the routes import, a call whose request key is held does not return at
  the replay test: the reply of \<open>SET NX\<close> is \<open>null\<close>, which the engine reads as "cache
  unreachable", so the call is the durable fallback.
\<close>

lemma replay_falls_back:
  assumes "trim requestId \<noteq> []" "client env"
    and "held now (cache s) (reqKey d u (trim requestId))"
  shows "assertAndConsumePrintQuota env now s d u requestId = fallback now s d u"
  using assms by (simp add: assertAndConsumePrintQuota_def setNxEx_def Let_def)

text \<open>In the second engine file such a call returns success and changes nothing.\<close>

lemma replay_no_effect_V2:
  assumes "trim requestId \<noteq> []" "client env" "\<not> set_fails env"
    and "held now (cache s) (reqKey d u (trim requestId))"
  shows "assertAndConsumePrintQuotaV2 env now s d u requestId = (Inr (), s)"
  using assms by (simp add: assertAndConsumePrintQuotaV2_def setNxEx_def falsy_def Let_def)

lemma strs_ATOMIC: "ATOMIC_PRINT_DECREMENT c k = (r, c') \<Longrightarrow> strs c' = strs c"
  by (auto simp: ATOMIC_PRINT_DECREMENT_def split: option.splits if_splits)

lemma strs_seed: "strs (seedRedisRemaining c d u n) = strs c"
  by (simp add: seedRedisRemaining_def)

lemma fallbackV2_cache: "fallbackV2 now s d u = (res, s') \<Longrightarrow> cache s' = cache s"
  by (auto simp: fallbackV2_def split: prod.splits)

lemma tryBodyV2_strs:
  "tryBodyV2 env now s d u = r \<Longrightarrow>
     strs (cache (case r of Inl s' \<Rightarrow> s' | Inr s' \<Rightarrow> s')) = strs (cache s)"
  by (auto simp: tryBodyV2_def Let_def strs_seed
      split: sum.splits prod.splits if_splits dest!: strs_ATOMIC)

lemma first_call_holds_key_V2:
  assumes "trim requestId \<noteq> []" "client env" "\<not> set_fails env"
    and "\<not> held t (cache s) (reqKey d u (trim requestId))"
    and "assertAndConsumePrintQuotaV2 env t s d u requestId = (res, s1)"
  shows "strs (cache s1) (reqKey d u (trim requestId)) = Some (t + IDEMPOTENCY_TTL_SECONDS)"
proof -
  let ?k = "reqKey d u (trim requestId)"
  let ?s0 = "s\<lparr>cache := (cache s)\<lparr>strs := (strs (cache s))(?k \<mapsto> t + IDEMPOTENCY_TTL_SECONDS)\<rparr>\<rparr>"
  show ?thesis
  proof (cases "tryBodyV2 env t ?s0 d u")
    case (Inl s')
    with tryBodyV2_strs[OF Inl] assms show ?thesis
      by (auto simp: assertAndConsumePrintQuotaV2_def setNxEx_def falsy_def Let_def
          dest!: fallbackV2_cache)
  next
    case (Inr s')
    with tryBodyV2_strs[OF Inr] assms show ?thesis
      by (auto simp: assertAndConsumePrintQuotaV2_def setNxEx_def falsy_def Let_def)
  qed
qed

text \<open>
  So the second engine file has the replay property of claim C1: after a first call that
  set the request key, a second call with the same triple within 300 seconds returns
  success and leaves cache and store as they were.
\<close>

lemma replay_within_window_V2:
  assumes rid: "trim requestId \<noteq> []"
    and env1: "client env1" "\<not> set_fails env1"
    and env2: "client env2" "\<not> set_fails env2"
    and fresh: "\<not> held t1 (cache s) (reqKey documentId userId (trim requestId))"
    and window: "t1 \<le> t2" "t2 < t1 + IDEMPOTENCY_TTL_SECONDS"
  shows "assertAndConsumePrintQuotaV2 env2 t2
            (snd (assertAndConsumePrintQuotaV2 env1 t1 s documentId userId requestId))
            documentId userId requestId
          = (Inr (), snd (assertAndConsumePrintQuotaV2 env1 t1 s documentId userId requestId))"
proof -
  let ?k = "reqKey documentId userId (trim requestId)"
  obtain res1 s1 where first: "assertAndConsumePrintQuotaV2 env1 t1 s documentId userId requestId = (res1, s1)"
    by (cases "assertAndConsumePrintQuotaV2 env1 t1 s documentId userId requestId")
  from first_call_holds_key_V2[OF rid env1 fresh first] window
  have "held t2 (cache s1) ?k" by (simp add: held_def)
  from replay_no_effect_V2[OF rid env2 this] first
  show ?thesis by simp
qed

text \<open>
  Claim C1 fails on the engine the routes import. Quota 3, one print used, an empty
  cache, the cache answering every command. The first call with request id \<open>r1\<close> at time
  0 succeeds: it sets the request key, seeds the cache, decrements it and writes
  \<open>printsUsed = 2\<close>. The second call with the same triple at time 1 finds the key held
  (first line): \<open>SET NX\<close> resolves to \<open>null\<close>, the engine takes the durable fallback and
  increments \<open>printsUsed\<close> again, to 3. Two consumptions are attributable to \<open>r1\<close>.
\<close>

theorem replay_consumes_again:
  "held 1 (cache (snd firstCall)) (reqKey ''d'' ''u'' ''r1'')
   \<and> fst firstCall = Inr () \<and> observe (snd firstCall) = Some (Some 2, Some 3)
   \<and> fst repeatedCall = Inr () \<and> observe (snd repeatedCall) = Some (Some 3, Some 3)"
  by (simp add: firstCall_def repeatedCall_def quota_eval)

subsection \<open>The quota bound in the durable store\<close>

text \<open>
  Claim C2 fails on the code. Quota 2, nothing used, an empty cache. Request \<open>r1\<close> (cache
  up) seeds \<open>remaining = 2\<close>, decrements it to 1 and writes \<open>printsUsed = 1\<close>. Request
  \<open>r2\<close> arrives while the cache is down: the durable fallback writes \<open>printsUsed = 2\<close>
  and the cache keeps \<open>remaining = 1\<close>. Request \<open>r3\<close> (cache up again) decrements the
  stale counter and the write-behind update, which has no guard on the quota, writes
  \<open>printsUsed = 3 > printQuota = 2\<close>. All three calls return success.
\<close>

theorem write_behind_exceeds_quota:
  "fst afterFirst = Inr () \<and> observe (snd afterFirst) = Some (Some 1, Some 2)
   \<and> fst afterSecond = Inr () \<and> observe (snd afterSecond) = Some (Some 2, Some 2)
   \<and> fst afterThird = Inr () \<and> observe (snd afterThird) = Some (Some 3, Some 2)"
  by (simp add: afterFirst_def afterSecond_def afterThird_def quota_eval)

text \<open>The durable fallback, which guards its update with \<open>printsUsed < printQuota\<close>, keeps the bound.\<close>

lemma fallback_keeps_bound:
  assumes "d (documentId, userId) = Some a" "finiteOrZero (printsUsed a) \<le> effectiveQuota a"
    and "dbFallbackOptimisticConsume now d documentId userId = (r, d')"
    and "d' (documentId, userId) = Some a'"
  shows "finiteOrZero (printsUsed a') \<le> effectiveQuota a'"
  using assms
  by (auto simp: dbFallbackOptimisticConsume_def Let_def effectiveQuota_def finiteOrZero_def
      split: if_splits option.splits)

subsection \<open>Quota exceeded on the cache path\<close>

text \<open>
  Claim C3 fails on the second engine file. The cache holds \<open>remaining = 0\<close> while the
  store has quota 2 and one print used (the quota was raised after the cache was seeded).
  The script returns \<open>-1\<close>; the \<open>LIMIT\<close> error is thrown inside the \<open>try\<close> block, caught
  by its \<open>catch\<close>, and the durable fallback runs: the call returns success, the request
  key stays held, and \<open>printsUsed\<close> is incremented in the durable store. In scenario 5 of
  the specification (quota 1, one print used, an empty cache) the fallback does fail with
  \<open>LIMIT\<close>, but the request key stays held as well (last two conjuncts).
\<close>

theorem limit_is_caught_V2:
  "fst (ATOMIC_PRINT_DECREMENT (cache (warmState 0 2 1)) (quotaKey ''d'' ''u'')) = - 1
   \<and> fst (assertAndConsumePrintQuotaV2 envOk 0 (warmState 0 2 1) ''d'' ''u'' ''r2'') = Inr ()
   \<and> held 1 (cache (snd (assertAndConsumePrintQuotaV2 envOk 0 (warmState 0 2 1) ''d'' ''u'' ''r2'')))
        (reqKey ''d'' ''u'' ''r2'')
   \<and> observe (snd (assertAndConsumePrintQuotaV2 envOk 0 (warmState 0 2 1) ''d'' ''u'' ''r2''))
       = Some (Some 2, Some 2)
   \<and> fst (assertAndConsumePrintQuotaV2 envOk 0 (coldState 1 1) ''d'' ''u'' ''r2'') = Inl LIMIT
   \<and> held 1 (cache (snd (assertAndConsumePrintQuotaV2 envOk 0 (coldState 1 1) ''d'' ''u'' ''r2'')))
        (reqKey ''d'' ''u'' ''r2'')"
  by (simp add: quota_eval)

text \<open>
  The engine the routes import does what claim C3 says when the first decrement returns
  \<open>-1\<close>: it fails with \<open>LIMIT\<close>, the request key is deleted, and the durable store is
  untouched.
\<close>

lemma limit_deletes_req_key:
  assumes "trim requestId \<noteq> []" "client env" "\<not> set_fails env" "\<not> eval_fails env" "\<not> del_fails env"
    and "\<not> held now (cache s) (reqKey d u (trim requestId))"
    and "hashes (cache s) (quotaKey d u) = Some n" "n \<le> 0"
  shows "assertAndConsumePrintQuota env now s d u requestId
         = (Inl LIMIT, s\<lparr>cache := del (cache s) (reqKey d u (trim requestId))\<rparr>)"
  using assms
  by (simp add: assertAndConsumePrintQuota_def setNxEx_def falsy_def ATOMIC_PRINT_DECREMENT_def
      afterDecrement_def del_def Let_def)

section \<open>Properties of the payload MAC and of the batch worker\<close>

lemma upt_0_2: "[0..<2] = [0, Suc 0]"
  by (simp add: numeral_2_eq_2)


lemma toHex_0: "toHex 0 = replicate 64 CHR ''0''"
  by (simp add: toHex_def hexDigit_def map_replicate_const)

lemmas worker_eval = processBatch_def verifyJobPayload_def signJobPayload_def timingSafeEqual_def
  toHex_0 sampleDeps_def sampleSched_def sampleJob_def sampleMetadata_def sampleKv_def kvUp_def
  batchTotal_def updateProgress_def logBatchDone_def Let_def



text \<open>
  \<open>processBatch\<close> returns \<open>{ skipped: true }\<close> or throws: the statement between the page
  loop and \<open>return { pages: out }\<close> always throws.
\<close>

lemma processBatch_never_returns_pages:
  "fst (processBatch D st d) \<noteq> Inr (Pages out)"
  by (auto simp: processBatch_def logBatchDone_def split: option.splits sum.splits prod.splits)

text \<open>
  Claim C5 fails on the code. The job \<open>j1\<close> exists, is \<open>PENDING\<close>, has valid metadata and
  a matching MAC; the batch is pages 0 and 1. The page loop renders both pages (second
  conjunct: one entry per page index, each \<open>%PDF-\<close> bytes), and then \<open>processBatch\<close>
  throws \<open>ReferenceError: documentId is not defined\<close> instead of returning the pages.
\<close>

theorem processBatch_throws_after_rendering:
  "fst (processBatch sampleDeps (sampleSched PENDING (replicate 64 CHR ''0''))
          \<lparr>data_printJobId = ''j1'', data_startPage = 0, data_endPage = 2, data_totalPages = 3\<rparr>)
     = Inl (ReferenceError ''documentId'')
   \<and> fst (renderPages sampleDeps 3 (sampleJob PENDING (replicate 64 CHR ''0'')) [0..<2] [])
     = Inr [\<lparr>pageIndex = Some 0, pdfBase64 = B64 ''%PDF-0''\<rparr>,
            \<lparr>pageIndex = Some 1, pdfBase64 = B64 ''%PDF-1''\<rparr>]"
  by (simp add: worker_eval upt_0_2)

section \<open>Properties of the failed-attempt handler\<close>

text \<open>The handler marks the job \<open>FAILED\<close> on every failed attempt, final or not.\<close>

lemma onFailed_marks_every_attempt:
  assumes "job_printJobId job = Some pid" "pid \<noteq> []" "jobs st pid = Some jobDoc"
  shows "map_option status (jobs (onFailed env now st job err) pid) = Some FAILED"
  using assms by (simp add: onFailed_def Let_def)

text \<open>
  Claim C7 fails on the code. A \<open>batch\<close> child configured with 3 attempts fails for the
  first time (\<open>attemptsMade = 1\<close>, not the final attempt) while the job is \<open>RUNNING\<close>:
  the handler sets \<open>status = FAILED\<close>, records the error and appends \<open>JOB_FAILED\<close>. Only
  the release of the render lock waits for the final attempt: the lock is still held.
\<close>

theorem non_final_attempt_marks_failed:
  "\<not> isFinalFailure retriedJob
   \<and> map_option status (jobs (sampleSched RUNNING []) ''j1'') = Some RUNNING
   \<and> map_option status (jobs (onFailed kvUp 10 (sampleSched RUNNING []) retriedJob renderError) ''j1'')
       = Some FAILED
   \<and> map_option error (jobs (onFailed kvUp 10 (sampleSched RUNNING []) retriedJob renderError) ''j1'')
       = Some (Some (''boom'', None))
   \<and> map_option (last \<circ> audit) (jobs (onFailed kvUp 10 (sampleSched RUNNING []) retriedJob renderError) ''j1'')
       = Some (JOB_FAILED ''7'' ''batch'')
   \<and> getLock 10 (kv (onFailed kvUp 10 (sampleSched RUNNING []) retriedJob renderError)) (lockKey ''doc1'')
       = Some ''j1''"
  by (simp add: onFailed_def isFinalFailure_def retriedJob_def renderError_def orElse_def
      getLock_def lockKey_def worker_eval)

section \<open>Properties of the merge worker\<close>















section \<open>Properties of admission\<close>

text \<open>A job id (not empty, no white space at either end) is left as it is by \<open>trim\<close>.\<close>

lemma trim_job_id:
  assumes "s \<noteq> []" "\<not> isSpace (hd s)" "\<not> isSpace (last s)"
  shows "trim s = s"
proof -
  from assms have a: "dropWhile isSpace s = s" by (cases s) simp_all
  from assms have "rev s \<noteq> []" "\<not> isSpace (hd (rev s))" by (simp_all add: hd_rev)
  then have "dropWhile isSpace (rev s) = rev s" by (cases "rev s") simp_all
  with a show ?thesis by (simp add: trim_def)
qed

text \<open>
  Claim C6. Take admission requests with valid metadata for the document \<open>documentId\<close>,
  made while the cache answers and the lock key of \<open>documentId\<close> exists (it holds
  \<open>holder\<close>, a job id, and has not expired). The acquire script returns busy with
  \<open>holder\<close>; admission answers with job id \<open>holder\<close> and status \<open>PENDING\<close> and leaves
  the state as it was: no job is created, the cache is unchanged. A second admission for
  the same document, made in the state the first one left, gets the same job id.
\<close>

theorem admission_under_held_lock:
  assumes valid: "validateVectorMetadata D m1" "assertVectorJobEnqueueable D m1"
      "validateVectorMetadata D m2" "assertVectorJobEnqueueable D m2"
    and doc: "admissionDocumentId m1 = documentId" "admissionDocumentId m2 = documentId"
      "documentId \<noteq> []"
    and env: "kv_client env1" "\<not> kv_eval_fails env1" "kv_client env2" "\<not> kv_eval_fails env2"
    and lock: "locks (kv st) (lockKey documentId) = Some (holder, expiry)"
      "now1 < expiry" "now2 < expiry"
    and holder: "holder \<noteq> []" "\<not> isSpace (hd holder)" "\<not> isSpace (last holder)"
  shows "fst (ACQUIRE_RENDER_LOCK_LUA now1 (kv st) (lockKey documentId) (memberKey id1) id1 ttl maxActive)
           = Busy holder
       \<and> post_jobs D env1 enq1 ttl maxActive now1 st m1 id1 = (Resp200 holder PENDING, st)
       \<and> post_jobs D env2 enq2 ttl maxActive now2
            (snd (post_jobs D env1 enq1 ttl maxActive now1 st m1 id1)) m2 id2
          = (Resp200 holder PENDING, st)"
proof -
  have acq: "ACQUIRE_RENDER_LOCK_LUA now (kv st) (lockKey documentId) (memberKey j) j ttl maxActive
      = (Busy holder, kv st)" if "now < expiry" for now j
    using that lock(1) by (simp add: ACQUIRE_RENDER_LOCK_LUA_def getLock_def)
  have t: "trim holder = holder" using holder by (rule trim_job_id)
  have one: "post_jobs D env enq ttl maxActive now st m j = (Resp200 holder PENDING, st)"
    if "validateVectorMetadata D m" "assertVectorJobEnqueueable D m"
      "admissionDocumentId m = documentId" "kv_client env" "\<not> kv_eval_fails env" "now < expiry"
    for env enq now m j
    using that doc(3) holder(1) by (simp add: post_jobs_def Let_def acq t)
  from acq[OF lock(2)] one[OF valid(1,2) doc(1) env(1,2) lock(2)] one[OF valid(3,4) doc(2) env(3,4) lock(3)]
  show ?thesis by simp
qed

text \<open>
  Claim C6 at a concrete input: job \<open>j1\<close> holds the lock of \<open>doc1\<close> until time 1800; two
  admissions at times 100 and 200, with the fresh ids \<open>j2\<close> and \<open>j3\<close>.
\<close>

theorem admission_under_held_lock_witness:
  "fst (ACQUIRE_RENDER_LOCK_LUA 100 (kv heldSched) (lockKey ''doc1'') (memberKey ''j2'') ''j2'' 1800 0)
     = Busy ''j1''
   \<and> post_jobs sampleDeps kvUp True 1800 0 100 heldSched sampleMetadata ''j2''
       = (Resp200 ''j1'' PENDING, heldSched)
   \<and> post_jobs sampleDeps kvUp True 1800 0 200
        (snd (post_jobs sampleDeps kvUp True 1800 0 100 heldSched sampleMetadata ''j2''))
        sampleMetadata ''j3''
       = (Resp200 ''j1'' PENDING, heldSched)
   \<and> jobs heldSched ''j2'' = None \<and> jobs heldSched ''j3'' = None"
proof -
  have valid: "validateVectorMetadata sampleDeps sampleMetadata"
    "assertVectorJobEnqueueable sampleDeps sampleMetadata"
    by (simp_all add: sampleDeps_def)
  have doc: "admissionDocumentId sampleMetadata = ''doc1''" "''doc1'' \<noteq> []"
    by (simp_all add: admissionDocumentId_def sampleMetadata_def orElse_def trim_def isSpace_def)
  have env: "kv_client kvUp" "\<not> kv_eval_fails kvUp" by (simp_all add: kvUp_def)
  have lock: "locks (kv heldSched) (lockKey ''doc1'') = Some (''j1'', 1800)"
    "(100::nat) < 1800" "(200::nat) < 1800"
    by (simp_all add: heldSched_def sampleSched_def sampleKv_def)
  have holder: "''j1'' \<noteq> []" "\<not> isSpace (hd ''j1'')" "\<not> isSpace (last ''j1'')"
    by (simp_all add: isSpace_def)
  have none: "jobs heldSched ''j2'' = None" "jobs heldSched ''j3'' = None"
    by (simp_all add: heldSched_def sampleSched_def)
  from admission_under_held_lock[OF valid valid doc(1) doc(1) doc(2) env env lock holder,
      where ?id1.0="''j2''" and ?id2.0="''j3''" and ttl=1800 and maxActive=0 and ?enq1.0=True
      and ?enq2.0=True]
  have acq: "fst (ACQUIRE_RENDER_LOCK_LUA 100 (kv heldSched) (lockKey ''doc1'') (memberKey ''j2'') ''j2'' 1800 0)
      = Busy ''j1''"
    and first: "post_jobs sampleDeps kvUp True 1800 0 100 heldSched sampleMetadata ''j2''
      = (Resp200 ''j1'' PENDING, heldSched)"
    and second: "post_jobs sampleDeps kvUp True 1800 0 200
        (snd (post_jobs sampleDeps kvUp True 1800 0 100 heldSched sampleMetadata ''j2''))
        sampleMetadata ''j3'' = (Resp200 ''j1'' PENDING, heldSched)"
    by blast+
  from acq first second none show ?thesis by blast
qed

section \<open>Properties of JavaScript numbers\<close>

subsection \<open>Powers of two and the binary logarithm\<close>

lemma pow2_powi: "pow2 k = 2 powi k"
  by (simp add: pow2_def power_int_def inverse_eq_divide power_one_over)

lemma pow2_pos [simp]: "0 < pow2 k"
  by (simp add: pow2_powi)

lemma pow2_nonneg [simp]: "0 \<le> pow2 k"
  by (simp add: pow2_powi)

lemma pow2_not_neg [simp]: "\<not> pow2 k < 0"
  by (simp add: not_less)

lemma pow2_ne0 [simp]: "pow2 k \<noteq> 0"
  by (simp add: pow2_powi)







subsection \<open>Rounding\<close>

lemma roundHalfEven_of_int [simp]: "roundHalfEven (of_int z) = z"
  by (simp add: roundHalfEven_def)








lemma fl_zero [simp]: "fl 0 = Finite 0"
  by (simp add: fl_def)







subsection \<open>Overflow\<close>









subsection \<open>Operators on finite numbers\<close>

lemma double_arith [simp]:
  "Finite a + Finite b = fl (a + b)"
  "Finite a - Finite b = fl (a - b)"
  "Finite a * Finite b = fl (a * b)"
  "b \<noteq> 0 \<Longrightarrow> Finite a / Finite b = fl (a / b)"
  "(Finite a < Finite b) = (a < b)"
  "(Finite a \<le> Finite b) = (a \<le> b)"
  by (auto simp: plus_double_def minus_double_def uminus_double_def times_double_def
      divide_double_def less_double_def less_eq_double_def)

lemma double_inf [simp]:
  "Finite a - PosInf = NegInf" "Finite a - NegInf = PosInf"
  "\<not> Finite a < NegInf" "Finite a < PosInf" "Finite a \<le> PosInf" "\<not> Finite a \<le> NegInf"
  by (simp_all add: plus_double_def minus_double_def uminus_double_def less_double_def
      less_eq_double_def)

lemma Math_max_Finite [simp]: "Math_max (Finite a) (Finite b) = Finite (max a b)"
  by (simp add: Math_max_def max_def)

lemma double_misc [simp]:
  "isFinite (Finite a)" "\<not> isFinite PosInf" "\<not> isFinite NegInf" "\<not> isFinite NaN"
  "truthy (Finite a) = (a \<noteq> 0)" "\<not> truthy NaN" "truthy PosInf" "truthy NegInf"
  "Math_round (Finite a) = Finite (of_int \<lfloor>a + 1 / 2\<rfloor>)"
  by (simp_all add: isFinite_def truthy_def Math_round_def)



lemma fl_not_NaN [simp]: "fl q \<noteq> NaN"
  by (simp add: fl_def)




subsection \<open>Evaluation\<close>




section \<open>Properties of the layout engine\<close>

subsection \<open>The constants\<close>







subsection \<open>Slot grid\<close>





subsection \<open>Series numbers\<close>








text \<open>
  The loops of \<open>drawSeriesNumbers\<close> concatenate the draw calls of the slots, series by
  series and slot by slot, when every placement is valid and every series string is built.
\<close>

lemma drawSeriesSlot_returns:
  assumes "validPlacement pl" "seriesValue E sc p S i = Inr str"
  shows "\<exists>ds. drawSeriesSlot E sc p S i sl pl = Inr ds"
proof -
  from assms(1) have "\<not> objectBBoxPt_width pl \<le> Finite 0" "\<not> objectBBoxPt_height pl \<le> Finite 0"
    "\<not> slotScale pl \<le> Finite 0"
    by (auto simp: validPlacement_def isFinite_def less_eq_double_def less_double_def
        split: double.splits)
  with assms show ?thesis
    by (auto simp: drawSeriesSlot_def validPlacement_def Let_def split: option.splits)
qed

lemma drawSlots_ok:
  assumes "\<forall>i \<in> set idxs. validPlacement (placements ! i) \<and> (\<exists>str. seriesValue E sc p S i = Inr str)"
  shows "drawSlots E sc p S placements idxs = Inr (concat (map (slotDraws E sc p S placements) idxs))"
  using assms
proof (induction idxs)
  case Nil
  then show ?case by simp
next
  case (Cons i rest)
  then have pl: "validPlacement (placements ! i)" by simp
  from Cons obtain str where v: "seriesValue E sc p S i = Inr str" by auto
  show ?case
  proof (cases "slotDef sc i")
    case None
    with Cons show ?thesis by (simp add: slotDraws_def)
  next
    case (Some sl)
    from drawSeriesSlot_returns[OF pl v, of sl]
    obtain ds where "drawSeriesSlot E sc p S i sl (placements ! i) = Inr ds" by blast
    with Some Cons show ?thesis by (simp add: slotDraws_def)
  qed
qed

lemma drawSeriesNumbers_ok:
  assumes "\<forall>sc \<in> set series. \<forall>i < maxSlots placements S.
             validPlacement (placements ! i) \<and> (\<exists>str. seriesValue E sc p S i = Inr str)"
  shows "drawSeriesNumbers E series p S placements
         = Inr (concat (map (\<lambda>sc. concat (map (slotDraws E sc p S placements)
                                           [0..<maxSlots placements S])) series))"
  using assms
proof (induction series)
  case Nil
  then show ?case by simp
next
  case (Cons sc rest)
  then have "\<forall>i \<in> set [0..<maxSlots placements S].
      validPlacement (placements ! i) \<and> (\<exists>str. seriesValue E sc p S i = Inr str)"
    by simp
  from drawSlots_ok[OF this] Cons show ?case by simp
qed

end
